theory Spec2Isabelle
  imports Main
begin

section \<open>Shared vocabulary: errors, outcomes and observable events\<close>

text \<open>
  Go errors are values. An error that comes from outside the program (the operating system,
  a collaborator package) is \<open>Opaque\<close> with its message; \<open>fmt.Errorf\<close> without a verb
  is \<open>Errorf\<close>; \<open>fmt.Errorf("prefix: %w", err)\<close> is \<open>Wrap\<close> of the prefix and the
  wrapped error. A Go \<open>error\<close> result is an \<open>error option\<close>: \<open>None\<close> is \<open>nil\<close>.
\<close>

datatype error = Opaque string | Errorf string | Wrap string error

fun Error :: "error \<Rightarrow> string" where
  "Error (Opaque s) = s"
| "Error (Errorf s) = s"
| "Error (Wrap p e) = p @ Error e"

text \<open>
  A call either returns, blocks for ever, or panics.
\<close>

datatype 'a outcome = Return 'a | Blocked | Panic string

datatype signal = SIGINT | SIGTERM

fun signal_String :: "signal \<Rightarrow> string" where
  "signal_String SIGINT = ''interrupt''"
| "signal_String SIGTERM = ''terminated''"

datatype severity = SevInfo | SevError

datatype field = FStr string | FInt int | FErr error | FStrs "string list"

datatype LogWatcher = LogWatcher nat

datatype TradeManager = TradeManager nat

text \<open>
  Modelled from the spec: the declaration of \<open>models.TradeEntry\<close> is not among the
  sources; section 3 of the specification lists its fields (its \<open>ID\<close> is \<open>EntryID\<close>
  here, apart from a window's \<open>ID\<close>), and a trade's lifecycle states are those of
  section 4.2.
\<close>

datatype TradeState = New | Active | Completed | Expired | Cancelled

record TradeEntry =
  EntryID :: string
  PlayerName :: string
  ItemName :: string
  RawLine :: string
  ReceivedAt :: int
  State :: TradeState

text \<open>
  Every interaction of the program with the outside is an event; a run is the list of its
  events in the order they happen. Durations are nanoseconds, as Go's \<open>time.Duration\<close>.
\<close>

datatype event =
    LookPath string
  | ExecOutput "string list"
  | ExecRun "string list"
  | Sleep int
  | LogInfo string "(string \<times> field) list"
  | LogDebug string "(string \<times> field) list"
  | LogError string error "(string \<times> field) list"
  | NotifierShow string severity
  | NewTradeManager
  | NewLogWatcher
  | GoWatchRoutine
  | WatcherWatch "LogWatcher option"
  | SignalNotify "signal list"
  | SignalReceived signal
  | WatcherStop LogWatcher
  | AddTradeCall "TradeManager option" TradeEntry

definition Millisecond :: int where
  "Millisecond = 1000000"

text \<open>
  The answers of the outside are oracles: each takes the events of the run so far, so that
  the same question may be answered differently at different moments (a window may close
  between two calls). \<open>look_path\<close> is \<open>exec.LookPath\<close>: a path and an error.
\<close>

record os =
  look_path :: "event list \<Rightarrow> string \<Rightarrow> string \<times> error option"

section \<open>Package wm: the X11 backend\<close>

subsection \<open>The standard-library string functions the backend uses\<close>

text \<open>
  Go strings are byte sequences. \<open>strings.TrimSpace\<close> removes leading and trailing
  white space as Unicode defines it; on UTF-8 bytes these are the encodings below: the six
  ASCII characters, U+0085, U+00A0, U+1680, U+2000 to U+200A, U+2028, U+2029, U+202F,
  U+205F and U+3000.
\<close>

definition space_encodings :: "string list" where
  "space_encodings =
    [[CHR 0x09], [CHR 0x0A], [CHR 0x0B], [CHR 0x0C], [CHR 0x0D], [CHR 0x20],
     [CHR 0xC2, CHR 0x85], [CHR 0xC2, CHR 0xA0],
     [CHR 0xE1, CHR 0x9A, CHR 0x80],
     [CHR 0xE2, CHR 0x80, CHR 0x80], [CHR 0xE2, CHR 0x80, CHR 0x81],
     [CHR 0xE2, CHR 0x80, CHR 0x82], [CHR 0xE2, CHR 0x80, CHR 0x83],
     [CHR 0xE2, CHR 0x80, CHR 0x84], [CHR 0xE2, CHR 0x80, CHR 0x85],
     [CHR 0xE2, CHR 0x80, CHR 0x86], [CHR 0xE2, CHR 0x80, CHR 0x87],
     [CHR 0xE2, CHR 0x80, CHR 0x88], [CHR 0xE2, CHR 0x80, CHR 0x89],
     [CHR 0xE2, CHR 0x80, CHR 0x8A],
     [CHR 0xE2, CHR 0x80, CHR 0xA8], [CHR 0xE2, CHR 0x80, CHR 0xA9],
     [CHR 0xE2, CHR 0x80, CHR 0xAF],
     [CHR 0xE2, CHR 0x81, CHR 0x9F],
     [CHR 0xE3, CHR 0x80, CHR 0x80]]"

fun starts_with :: "string \<Rightarrow> string \<Rightarrow> bool" where
  "starts_with s [] = True"
| "starts_with [] (p # ps) = False"
| "starts_with (c # cs) (p # ps) = (c = p \<and> starts_with cs ps)"

fun strip_leading :: "string list \<Rightarrow> nat \<Rightarrow> string \<Rightarrow> string" where
  "strip_leading toks 0 s = s"
| "strip_leading toks (Suc n) s =
     (case find (starts_with s) toks of
        None \<Rightarrow> s
      | Some t \<Rightarrow> strip_leading toks n (drop (length t) s))"

definition TrimLeftSpace :: "string \<Rightarrow> string" where
  "TrimLeftSpace s = strip_leading space_encodings (length s) s"

definition TrimRightSpace :: "string \<Rightarrow> string" where
  "TrimRightSpace s = rev (strip_leading (map rev space_encodings) (length s) (rev s))"

definition TrimSpace :: "string \<Rightarrow> string" where
  "TrimSpace s = TrimRightSpace (TrimLeftSpace s)"

text \<open>
  \<open>strings.Split(s, sep)\<close> for a one-byte separator: the pieces of \<open>s\<close> between the
  occurrences of the separator. The result is never the empty list.
\<close>

fun Split :: "string \<Rightarrow> char \<Rightarrow> string list" where
  "Split [] sep = [[]]"
| "Split (c # cs) sep =
     (if c = sep then [] # Split cs sep
      else (case Split cs sep of
              [] \<Rightarrow> [[c]]
            | w # ws \<Rightarrow> (c # w) # ws))"

subsection \<open>The operating system as the backend sees it\<close>

text \<open>
  \<open>exec_output\<close> is \<open>exec.Command(name, args...).Output()\<close>, the bytes of the
  command's standard output and an error, and \<open>exec_run\<close> is
  \<open>exec.Command(name, args...).Run()\<close>; a command is the list of its name and arguments.
\<close>

record backend = os +
  exec_output :: "event list \<Rightarrow> string list \<Rightarrow> string \<times> error option"
  exec_run :: "event list \<Rightarrow> string list \<Rightarrow> error option"

text \<open>
  Modelled from the spec: the declaration of \<open>wm.Window\<close> is not among the sources;
  the backend uses its fields \<open>ID\<close> and \<open>Class\<close>, both strings (section 3 of the
  specification). \<open>Window{}\<close> has both empty.
\<close>

record Window =
  ID :: string
  Class :: string

datatype WindowManager = X11

subsection \<open>The backend's operations\<close>

definition NewX11 ::
  "backend \<Rightarrow> event list \<Rightarrow> (WindowManager option \<times> error option) \<times> event list" where
  "NewX11 b tr =
     (let (path, err) = look_path b tr ''xdotool'';
          tr1 = tr @ [LookPath ''xdotool'']
      in case err of
           Some e \<Rightarrow>
             ((None, Some (Wrap ''xdotool is required for X11 support but was not found: '' e)),
              tr1)
         | None \<Rightarrow> ((Some X11, None), tr1))"

definition Name :: "WindowManager \<Rightarrow> string" where
  "Name x = ''X11''"

fun FindWindow ::
  "backend \<Rightarrow> string list \<Rightarrow> event list \<Rightarrow> (Window \<times> error option) outcome \<times> event list" where
  "FindWindow b [] tr = (Return (\<lparr>ID = [], Class = []\<rparr>, None), tr)"
| "FindWindow b (class # classNames) tr =
     (let (out, err) = exec_output b tr [''xdotool'', ''search'', ''--class'', class];
          tr1 = tr @ [ExecOutput [''xdotool'', ''search'', ''--class'', class]]
      in if err = None \<and> length out > 0 then
           (case Split (TrimSpace out) (CHR 0x0A) of
              [] \<Rightarrow> (Panic ''index out of range [0] with length 0'', tr1)
            | windowID # lines \<Rightarrow>
                (let (title, err2) = exec_output b tr1 [''xdotool'', ''getwindowname'', windowID];
                     tr2 = tr1 @ [ExecOutput [''xdotool'', ''getwindowname'', windowID]]
                 in if err2 = None then
                      (Return (\<lparr>ID = windowID, Class = class\<rparr>, None), tr2)
                    else FindWindow b classNames tr2))
         else FindWindow b classNames tr1)"

definition FocusWindow ::
  "backend \<Rightarrow> Window \<Rightarrow> event list \<Rightarrow> error option \<times> event list" where
  "FocusWindow b w tr =
     (if ID w = [] then
        (Some (Errorf ''cannot focus window: no window ID provided''), tr)
      else
        (let err = exec_run b tr [''xdotool'', ''windowactivate'', ID w];
             tr1 = tr @ [ExecRun [''xdotool'', ''windowactivate'', ID w]]
         in case err of
              Some e \<Rightarrow> (Some (Wrap ''failed to focus window: '' e), tr1)
            | None \<Rightarrow> (None, tr1 @ [Sleep (100 * Millisecond)])))"

section \<open>Package app: the application's lifecycle\<close>

text \<open>
  Modelled from the spec: the configuration's declaration (package \<open>config\<close>) is not
  among the sources; the application reads its log-file path, its notify command and the
  number of its compiled trigger patterns (section 6 of the specification).
\<close>

record Config =
  PoeLogPath :: string
  NotifyCommand :: string
  CompiledTriggers :: "string list"

text \<open>
  The collaborators of the application, as oracles over the run so far:
  \<open>notifier_show\<close> is \<open>Notifier.Show\<close>, \<open>new_trade_manager\<close> is
  \<open>trade_manager.NewTradeManager\<close>, \<open>new_log_watcher\<close> is \<open>poe_log.NewLogWatcher\<close>,
  \<open>watcher_watch\<close> is \<open>LogWatcher.Watch\<close>, \<open>add_trade\<close> is \<open>TradeManager.AddTrade\<close>,
  and \<open>await_signal\<close> is the receive from the signal channel, \<open>None\<close> when no signal ever
  arrives. A pointer is an option: \<open>None\<close> is \<open>nil\<close>.
\<close>

record host = os +
  config :: Config
  notifier_show :: "event list \<Rightarrow> string \<Rightarrow> severity \<Rightarrow> error option"
  new_trade_manager :: "event list \<Rightarrow> TradeManager option"
  new_log_watcher :: "event list \<Rightarrow> LogWatcher option \<times> error option"
  watcher_watch :: "event list \<Rightarrow> LogWatcher option \<Rightarrow> error option outcome"
  add_trade :: "event list \<Rightarrow> TradeManager option \<Rightarrow> TradeEntry \<Rightarrow> error option"
  await_signal :: "event list \<Rightarrow> signal option"

record POEHelper =
  entries :: "TradeEntry list"
  poeLogWatcher :: "LogWatcher option"
  tradeManager :: "TradeManager option"

fun checkDependencies_loop ::
  "host \<Rightarrow> string list \<Rightarrow> event list \<Rightarrow> error option \<times> event list" where
  "checkDependencies_loop h [] tr = (None, tr @ [LogInfo ''All dependencies satisfied'' []])"
| "checkDependencies_loop h (dep # deps) tr =
     (let (path, err) = look_path h tr dep;
          tr1 = tr @ [LookPath dep]
      in case err of
           Some e \<Rightarrow>
             (Some (Errorf (dep @ '' is not installed. Please install it using your package manager'')),
              tr1 @ [LogInfo ''Dependency check failed''
                       [(''missing_dependency'', FStr dep), (''error'', FErr e)]])
         | None \<Rightarrow> checkDependencies_loop h deps tr1)"

definition checkDependencies :: "host \<Rightarrow> event list \<Rightarrow> error option \<times> event list" where
  "checkDependencies h tr =
     checkDependencies_loop h [''rofi''] (tr @ [LogInfo ''Checking system dependencies'' []])"

definition NewPOEHelper ::
  "host \<Rightarrow> event list \<Rightarrow> (POEHelper option \<times> error option) \<times> event list" where
  "NewPOEHelper h tr =
     (let tr1 = tr @ [LogInfo ''Creating new POE Helper instance'' [],
                      LogDebug ''Initializing POEHelper''
                        [(''log_path'', FStr (PoeLogPath (config h))),
                         (''notify_command'', FStr (NotifyCommand (config h))),
                         (''trigger_count'', FInt (int (length (CompiledTriggers (config h)))))]];
          (err, tr2) = checkDependencies h tr1
      in case err of
           Some e \<Rightarrow>
             ((None, Some e),
              tr2 @ [LogError ''Dependency check failed'' e
                       [(''details'', FStr ''Required dependencies not found'')],
                     NotifierShow (Error e) SevError])
         | None \<Rightarrow>
             (let tm = new_trade_manager h tr2;
                  tr3 = tr2 @ [NewTradeManager];
                  helper = \<lparr>entries = [], poeLogWatcher = None, tradeManager = tm\<rparr>;
                  tr4 = tr3 @ [LogDebug ''Creating log watcher instance'' []];
                  (logWatcher, err2) = new_log_watcher h tr4;
                  tr5 = tr4 @ [NewLogWatcher]
              in case err2 of
                   Some e2 \<Rightarrow>
                     ((None, Some (Wrap ''failed to initialize log watcher: '' e2)),
                      tr5 @ [LogError ''Log watcher initialization failed'' e2
                               [(''details'', FStr ''Failed to create log watcher instance'')]])
                 | None \<Rightarrow> ((Some (helper\<lparr>poeLogWatcher := logWatcher\<rparr>), None), tr5)))"

definition Stop :: "POEHelper \<Rightarrow> event list \<Rightarrow> error option \<times> event list" where
  "Stop p tr =
     (let tr1 = tr @ [LogInfo ''Initiating POE Helper shutdown'' []];
          tr2 = (case poeLogWatcher p of
                   Some w \<Rightarrow> tr1 @ [LogDebug ''Stopping log watcher'' [], WatcherStop w]
                 | None \<Rightarrow> tr1)
      in (None,
          tr2 @ [LogInfo ''POE Helper shutdown complete''
                   [(''status'', FStr ''stopped''),
                    (''processed_entries'', FInt (int (length (entries p))))]]))"

definition waitForShutdown :: "host \<Rightarrow> event list \<Rightarrow> unit outcome \<times> event list" where
  "waitForShutdown h tr =
     (let tr1 = tr @ [LogDebug ''Setting up shutdown signal handler''
                        [(''signals'', FStrs [''SIGINT'', ''SIGTERM''])],
                      SignalNotify [SIGINT, SIGTERM]]
      in case await_signal h tr1 of
           None \<Rightarrow> (Blocked, tr1)
         | Some sig \<Rightarrow>
             (Return (),
              tr1 @ [SignalReceived sig,
                     LogInfo ''Shutdown signal received'' [(''signal'', FStr (signal_String sig))]]))"

text \<open>
  The body of the goroutine that \<open>Run\<close> starts; its events are those of its own thread.
\<close>

definition watchRoutine :: "host \<Rightarrow> POEHelper \<Rightarrow> event list \<Rightarrow> unit outcome \<times> event list" where
  "watchRoutine h p tr =
     (let tr1 = tr @ [WatcherWatch (poeLogWatcher p)]
      in case watcher_watch h tr (poeLogWatcher p) of
           Blocked \<Rightarrow> (Blocked, tr1)
         | Panic m \<Rightarrow> (Panic m, tr1)
         | Return None \<Rightarrow> (Return (), tr1)
         | Return (Some e) \<Rightarrow>
             (Return (),
              tr1 @ [LogError ''Log watcher routine failed'' e [(''component'', FStr ''log_watcher'')],
                     NotifierShow (''Log watcher error: '' @ Error e) SevError]))"

text \<open>
  \<open>Run\<close> on the main thread: the goroutine is started (\<open>GoWatchRoutine\<close>) and runs beside
  it; \<open>Run\<close> then waits for a signal, and does not return when none arrives.
\<close>

definition Run :: "host \<Rightarrow> POEHelper \<Rightarrow> event list \<Rightarrow> error option outcome \<times> event list" where
  "Run h p tr =
     (let tr1 = tr @ [LogInfo ''Starting POE Helper service'' [],
                      LogDebug ''Initializing service components'' []];
          err = notifier_show h tr1 ''POE Helper started'' SevInfo;
          tr2 = tr1 @ [NotifierShow ''POE Helper started'' SevInfo];
          tr3 = (case err of
                   Some e \<Rightarrow> tr2 @ [LogError ''Startup notification failed'' e
                                      [(''notification_type'', FStr ''startup'')]]
                 | None \<Rightarrow> tr2);
          tr4 = tr3 @ [GoWatchRoutine,
                       LogInfo ''Service started successfully''
                         [(''status'', FStr ''running''), (''waiting_for'', FStr ''shutdown_signal'')]]
      in case waitForShutdown h tr4 of
           (Return u, tr5) \<Rightarrow> (case Stop p tr5 of (r, tr6) \<Rightarrow> (Return r, tr6))
         | (Blocked, tr5) \<Rightarrow> (Blocked, tr5)
         | (Panic m, tr5) \<Rightarrow> (Panic m, tr5))"

definition handleTradeEntry :: "host \<Rightarrow> POEHelper \<Rightarrow> TradeEntry \<Rightarrow> event list \<Rightarrow> event list" where
  "handleTradeEntry h p entry tr =
     (let err = add_trade h tr (tradeManager p) entry;
          tr1 = tr @ [AddTradeCall (tradeManager p) entry]
      in case err of
           Some e \<Rightarrow>
             tr1 @ [LogError ''Failed to process trade in manager'' e
                      [(''player'', FStr (PlayerName entry)), (''item'', FStr (ItemName entry))]]
         | None \<Rightarrow> tr1)"

section \<open>The trade registry\<close>

text \<open>
  Modelled from the spec: the trade registry (package \<open>trade_manager\<close>) is not among the
  sources. Section 4.2 of the specification: \<open>AddTrade\<close> computes a dedup key from player
  name, item name and a coarse time bucket; if an entry with the same key already exists in
  a non-terminal state the call is a no-op that reports duplicate-ignored, otherwise the
  entry is stored in state \<open>New\<close>. The terminal states are \<open>Completed\<close>, \<open>Expired\<close> and
  \<open>Cancelled\<close>. The width of the time bucket is left open by the specification and is a
  parameter here.
\<close>

definition terminal :: "TradeState \<Rightarrow> bool" where
  "terminal s = (s = Completed \<or> s = Expired \<or> s = Cancelled)"

definition dedup_key :: "int \<Rightarrow> TradeEntry \<Rightarrow> string \<times> string \<times> int" where
  "dedup_key width e = (PlayerName e, ItemName e, ReceivedAt e div width)"

datatype AddResult = Success | DuplicateIgnored

definition is_duplicate :: "int \<Rightarrow> TradeEntry list \<Rightarrow> TradeEntry \<Rightarrow> bool" where
  "is_duplicate width reg e =
     list_ex (\<lambda>x. dedup_key width x = dedup_key width e \<and> \<not> terminal (State x)) reg"

definition AddTrade :: "int \<Rightarrow> TradeEntry list \<Rightarrow> TradeEntry \<Rightarrow> TradeEntry list \<times> AddResult" where
  "AddTrade width reg e =
     (if is_duplicate width reg e then (reg, DuplicateIgnored)
      else (reg @ [e\<lparr>State := New\<rparr>], Success))"

section \<open>Notions of the specification\<close>

text \<open>
  A window of a class exists, as the backend reports it at a moment of the run: the class
  search succeeds with a non-empty answer. The first window of the class is the first line
  of that answer, trimmed. The class is usable when, moreover, the query for the name of
  its first window succeeds right after the search.
\<close>

definition window_exists :: "backend \<Rightarrow> event list \<Rightarrow> string \<Rightarrow> bool" where
  "window_exists b tr class =
     (snd (exec_output b tr [''xdotool'', ''search'', ''--class'', class]) = None \<and>
      fst (exec_output b tr [''xdotool'', ''search'', ''--class'', class]) \<noteq> [])"

definition first_window :: "backend \<Rightarrow> event list \<Rightarrow> string \<Rightarrow> string" where
  "first_window b tr class =
     takeWhile (\<lambda>c. c \<noteq> CHR 0x0A)
       (TrimSpace (fst (exec_output b tr [''xdotool'', ''search'', ''--class'', class])))"

definition usable_at :: "backend \<Rightarrow> event list \<Rightarrow> string \<Rightarrow> bool" where
  "usable_at b tr class =
     (window_exists b tr class \<and>
      snd (exec_output b (tr @ [ExecOutput [''xdotool'', ''search'', ''--class'', class]])
             [''xdotool'', ''getwindowname'', first_window b tr class]) = None)"

text \<open>
  A backend is static when its answers to commands do not change during the run.
\<close>

definition static :: "backend \<Rightarrow> bool" where
  "static b = (\<forall>tr cmd. exec_output b tr cmd = exec_output b [] cmd)"

text \<open>
  Background work of the application: creating the log watcher, starting its goroutine,
  watching.
\<close>

fun background_work :: "event \<Rightarrow> bool" where
  "background_work NewLogWatcher = True"
| "background_work GoWatchRoutine = True"
| "background_work (WatcherWatch w) = True"
| "background_work ev = False"

text \<open>
  The events of a shutdown: a signal is received, the log watcher is told to stop.
\<close>

fun shutdown_event :: "event \<Rightarrow> bool" where
  "shutdown_event (SignalReceived s) = True"
| "shutdown_event (WatcherStop w) = True"
| "shutdown_event ev = False"

section \<open>Example inputs\<close>

text \<open>
  A desktop where only a window of class \<open>GameWindow\<close> exists, and every tool is installed.
\<close>

definition fallback_backend :: backend where
  "fallback_backend =
     \<lparr>look_path = (\<lambda>tr file. (''/usr/bin/'' @ file, None)),
      exec_output = (\<lambda>tr cmd.
        if cmd = [''xdotool'', ''search'', ''--class'', ''GameWindow'']
          then (''222'' @ [CHR 0x0A], None)
        else if cmd = [''xdotool'', ''getwindowname'', ''222'']
          then (''Path of Exile 2'' @ [CHR 0x0A], None)
        else ([], Some (Opaque ''exit status 1''))),
      exec_run = (\<lambda>tr cmd. None)\<rparr>"

text \<open>
  A desktop where class \<open>GameWindowV2\<close> has two windows, the first of which does not answer
  the query for its name, and class \<open>GameWindow\<close> has one.
\<close>

definition stale_backend :: backend where
  "stale_backend =
     \<lparr>look_path = (\<lambda>tr file. (''/usr/bin/'' @ file, None)),
      exec_output = (\<lambda>tr cmd.
        if cmd = [''xdotool'', ''search'', ''--class'', ''GameWindowV2'']
          then (''111'' @ [CHR 0x0A] @ ''112'' @ [CHR 0x0A], None)
        else if cmd = [''xdotool'', ''getwindowname'', ''112'']
          then (''Path of Exile 2'' @ [CHR 0x0A], None)
        else if cmd = [''xdotool'', ''search'', ''--class'', ''GameWindow'']
          then (''222'' @ [CHR 0x0A], None)
        else if cmd = [''xdotool'', ''getwindowname'', ''222'']
          then (''Path of Exile'' @ [CHR 0x0A], None)
        else ([], Some (Opaque ''exit status 1''))),
      exec_run = (\<lambda>tr cmd. None)\<rparr>"

text \<open>
  A machine without \<open>xdotool\<close>: it is not on the path and every command fails.
\<close>

definition bare_backend :: backend where
  "bare_backend =
     \<lparr>look_path = (\<lambda>tr file. ([], Some (Opaque ''executable file not found in PATH''))),
      exec_output = (\<lambda>tr cmd. ([], Some (Opaque ''executable file not found in PATH''))),
      exec_run = (\<lambda>tr cmd. Some (Opaque ''executable file not found in PATH''))\<rparr>"

definition example_config :: Config where
  "example_config =
     \<lparr>PoeLogPath = ''/games/poe2/logs/Client.txt'',
      NotifyCommand = ''notify-send'',
      CompiledTriggers = [''@From (.+): Hi, I would like to buy your (.+)'']\<rparr>"

definition example_entry :: TradeEntry where
  "example_entry =
     \<lparr>EntryID = ''t1'', PlayerName = ''Alice'', ItemName = ''Chaos Orb'',
      RawLine = ''@From Alice: Hi, I would like to buy your Chaos Orb'',
      ReceivedAt = 1000, State = New\<rparr>"

definition repeated_entry :: TradeEntry where
  "repeated_entry =
     \<lparr>EntryID = ''t2'', PlayerName = ''Alice'', ItemName = ''Chaos Orb'',
      RawLine = ''@From Alice: Hi, I would like to buy your Chaos Orb'',
      ReceivedAt = 1003, State = New\<rparr>"

text \<open>
  A machine without \<open>rofi\<close>.
\<close>

definition rofi_missing_host :: host where
  "rofi_missing_host =
     \<lparr>look_path = (\<lambda>tr file. ([], Some (Opaque ''executable file not found in PATH''))),
      config = example_config,
      notifier_show = (\<lambda>tr msg sev. None),
      new_trade_manager = (\<lambda>tr. Some (TradeManager 0)),
      new_log_watcher = (\<lambda>tr. (Some (LogWatcher 0), None)),
      watcher_watch = (\<lambda>tr w. Blocked),
      add_trade = (\<lambda>tr tm e. None),
      await_signal = (\<lambda>tr. None)\<rparr>"

text \<open>
  A machine with \<open>rofi\<close>, where the trade manager refuses every trade and SIGTERM arrives.
\<close>

definition running_host :: host where
  "running_host =
     \<lparr>look_path = (\<lambda>tr file. (''/usr/bin/'' @ file, None)),
      config = example_config,
      notifier_show = (\<lambda>tr msg sev. None),
      new_trade_manager = (\<lambda>tr. Some (TradeManager 0)),
      new_log_watcher = (\<lambda>tr. (Some (LogWatcher 0), None)),
      watcher_watch = (\<lambda>tr w. Blocked),
      add_trade = (\<lambda>tr tm e. Some (Opaque ''storage unavailable'')),
      await_signal = (\<lambda>tr. Some SIGTERM)\<rparr>"

definition example_helper :: POEHelper where
  "example_helper =
     \<lparr>entries = [], poeLogWatcher = Some (LogWatcher 0), tradeManager = Some (TradeManager 0)\<rparr>"

definition idle_helper :: POEHelper where
  "idle_helper = \<lparr>entries = [], poeLogWatcher = None, tradeManager = None\<rparr>"

section \<open>Properties of the X11 backend\<close>

subsection \<open>The string functions\<close>

text \<open>
  Trimming runs until no white space is left at the end it works on: the bound on its
  rounds, the length of the string, is never what stops it.
\<close>

lemma starts_with_shorter:
  "starts_with s t \<Longrightarrow> t \<noteq> [] \<Longrightarrow> length (drop (length t) s) < length s"
  by (cases s; cases t) auto

lemma strip_leading_done:
  assumes "\<forall>t\<in>set toks. t \<noteq> []"
  shows "length s \<le> n \<Longrightarrow> find (starts_with (strip_leading toks n s)) toks = None"
proof (induction n arbitrary: s)
  case 0
  then have "s = []" by simp
  moreover have "\<And>t. t \<in> set toks \<Longrightarrow> \<not> starts_with [] t"
    using assms by (metis starts_with.simps(2) list.exhaust)
  ultimately show ?case by (simp add: find_None_iff)
next
  case (Suc n)
  show ?case
  proof (cases "find (starts_with s) toks")
    case None
    then show ?thesis by simp
  next
    case (Some t)
    then have "t \<in> set toks" "starts_with s t"
      by (auto simp: find_Some_iff)
    with assms have "length (drop (length t) s) < length s"
      using starts_with_shorter by blast
    with Suc.prems have "length (drop (length t) s) \<le> n" by simp
    from Suc.IH [OF this] Some show ?thesis by simp
  qed
qed

lemma TrimLeftSpace_done: "find (starts_with (TrimLeftSpace s)) space_encodings = None"
  unfolding TrimLeftSpace_def
  by (rule strip_leading_done) (simp_all add: space_encodings_def)

lemma TrimRightSpace_done:
  "find (starts_with (rev (TrimRightSpace s))) (map rev space_encodings) = None"
  unfolding TrimRightSpace_def rev_rev_ident
  by (rule strip_leading_done) (simp_all add: space_encodings_def)

subsection \<open>One round of the search\<close>

lemma Split_first: "\<exists>ws. Split s sep = takeWhile (\<lambda>c. c \<noteq> sep) s # ws"
  by (induction s) auto

lemma FindWindow_usable:
  assumes "usable_at b tr c"
  shows "FindWindow b (c # cs) tr =
     (Return (\<lparr>ID = first_window b tr c, Class = c\<rparr>, None),
      tr @ [ExecOutput [''xdotool'', ''search'', ''--class'', c],
            ExecOutput [''xdotool'', ''getwindowname'', first_window b tr c]])"
proof -
  obtain out err where oe: "exec_output b tr [''xdotool'', ''search'', ''--class'', c] = (out, err)"
    by (cases "exec_output b tr [''xdotool'', ''search'', ''--class'', c]")
  obtain ws where sp:
    "Split (TrimSpace out) (CHR 0x0A) = takeWhile (\<lambda>c. c \<noteq> CHR 0x0A) (TrimSpace out) # ws"
    using Split_first by blast
  from assms oe have ok: "err = None" "out \<noteq> []"
    by (simp_all add: usable_at_def window_exists_def)
  from assms oe have nm:
    "snd (exec_output b (tr @ [ExecOutput [''xdotool'', ''search'', ''--class'', c]])
            [''xdotool'', ''getwindowname'', takeWhile (\<lambda>c. c \<noteq> CHR 0x0A) (TrimSpace out)]) = None"
    by (simp add: usable_at_def first_window_def)
  show ?thesis
    using oe ok sp nm by (auto simp: first_window_def Let_def split: prod.splits)
qed

lemma FindWindow_unusable:
  assumes "\<not> usable_at b tr c"
  shows "\<exists>tr'. FindWindow b (c # cs) tr = FindWindow b cs tr'"
proof -
  obtain out err where oe: "exec_output b tr [''xdotool'', ''search'', ''--class'', c] = (out, err)"
    by (cases "exec_output b tr [''xdotool'', ''search'', ''--class'', c]")
  obtain ws where sp:
    "Split (TrimSpace out) (CHR 0x0A) = takeWhile (\<lambda>c. c \<noteq> CHR 0x0A) (TrimSpace out) # ws"
    using Split_first by blast
  show ?thesis
  proof (cases "err = None \<and> out \<noteq> []")
    case True
    with assms oe have
      "snd (exec_output b (tr @ [ExecOutput [''xdotool'', ''search'', ''--class'', c]])
              [''xdotool'', ''getwindowname'', takeWhile (\<lambda>c. c \<noteq> CHR 0x0A) (TrimSpace out)]) \<noteq> None"
      by (simp add: usable_at_def window_exists_def first_window_def)
    with True oe sp show ?thesis
      by (auto simp: Let_def split: prod.splits)
  next
    case False
    with oe show ?thesis by auto
  qed
qed

lemma static_usable: "static b \<Longrightarrow> usable_at b tr c = usable_at b [] c"
  unfolding static_def usable_at_def window_exists_def first_window_def by metis

lemma static_first: "static b \<Longrightarrow> first_window b tr c = first_window b [] c"
  unfolding static_def first_window_def by metis

lemmas trim_defs = TrimSpace_def TrimLeftSpace_def TrimRightSpace_def space_encodings_def

subsection \<open>FindWindow\<close>

text \<open>
  Claim C1, as amended. On a static backend, for every ordered list of candidate class
  names, \<open>FindWindow\<close> returns the first class of the list that is usable: its class
  search succeeds with a non-empty answer and the query for the name of the first window
  listed succeeds. The window returned has that class as its \<open>Class\<close> and that first
  window as its \<open>ID\<close>. If no class of the list is usable, \<open>FindWindow\<close> returns the
  empty window and no error.
\<close>

theorem FindWindow_first_usable:
  assumes "static b"
  shows "fst (FindWindow b classNames tr) =
     Return (case find (usable_at b []) classNames of
               None \<Rightarrow> \<lparr>ID = [], Class = []\<rparr>
             | Some c \<Rightarrow> \<lparr>ID = first_window b [] c, Class = c\<rparr>, None)"
proof (induction classNames arbitrary: tr)
  case Nil
  show ?case by simp
next
  case (Cons c cs)
  show ?case
  proof (cases "usable_at b tr c")
    case True
    then show ?thesis
      using FindWindow_usable [OF True, of cs] static_usable [OF assms, of tr c]
        static_first [OF assms, of tr c]
      by simp
  next
    case False
    then obtain tr' where "FindWindow b (c # cs) tr = FindWindow b cs tr'"
      using FindWindow_unusable by blast
    then show ?thesis
      using Cons.IH [of tr'] False static_usable [OF assms, of tr c] by simp
  qed
qed

text \<open>
  Only a window of class \<open>GameWindow\<close> exists: the list \<open>GameWindowV2, GameWindow\<close> falls
  back to it, and the list \<open>GameWindowV2\<close> alone finds nothing.
\<close>

lemma static_fallback: "static fallback_backend"
  by (simp add: static_def fallback_backend_def)

lemma usable_fallback:
  "\<not> usable_at fallback_backend [] ''GameWindowV2''" "usable_at fallback_backend [] ''GameWindow''"
  "first_window fallback_backend [] ''GameWindow'' = ''222''"
  by (simp_all add: usable_at_def window_exists_def first_window_def fallback_backend_def trim_defs)

theorem FindWindow_first_usable_witness:
  "static fallback_backend \<and>
   fst (FindWindow fallback_backend [''GameWindowV2'', ''GameWindow''] []) =
     Return (\<lparr>ID = ''222'', Class = ''GameWindow''\<rparr>, None) \<and>
   fst (FindWindow fallback_backend [''GameWindowV2''] []) =
     Return (\<lparr>ID = [], Class = []\<rparr>, None)"
  using FindWindow_first_usable [OF static_fallback, of "[''GameWindowV2'', ''GameWindow'']" "[]"]
    FindWindow_first_usable [OF static_fallback, of "[''GameWindowV2'']" "[]"]
    static_fallback usable_fallback
  by simp

text \<open>
  Claim C1 as stated fails. Class \<open>GameWindowV2\<close> comes first in the list and has windows,
  one of which even answers the query for its name; the first one listed does not, so
  \<open>FindWindow\<close> passes over the class and returns a window of class \<open>GameWindow\<close>.
\<close>

theorem FindWindow_first_existing_counterexample:
  "static stale_backend \<and>
   window_exists stale_backend [] ''GameWindowV2'' \<and>
   snd (exec_output stale_backend [] [''xdotool'', ''getwindowname'', ''112'']) = None \<and>
   fst (FindWindow stale_backend [''GameWindowV2'', ''GameWindow''] []) =
     Return (\<lparr>ID = ''222'', Class = ''GameWindow''\<rparr>, None) \<and>
   ''GameWindow'' \<noteq> ''GameWindowV2''"
  by (simp add: static_def window_exists_def stale_backend_def trim_defs)

text \<open>
  Claim C8. For every list of class names, every backend and every moment of the run,
  \<open>FindWindow\<close> returns (it does not panic) and its error is \<open>nil\<close>. When no class of
  the list is usable, whether because a command fails, because a search finds nothing or
  because the name of a window that the search found cannot be read, the result is the
  same: the empty window, whose \<open>ID\<close> is empty, and no error.
\<close>

theorem FindWindow_never_errors:
  "(\<exists>w tr'. FindWindow b classNames tr = (Return (w, None), tr')) \<and>
   ((\<forall>t. \<forall>c\<in>set classNames. \<not> usable_at b t c) \<longrightarrow>
      fst (FindWindow b classNames tr) = Return (\<lparr>ID = [], Class = []\<rparr>, None))"
proof (induction classNames arbitrary: tr)
  case Nil
  show ?case by simp
next
  case (Cons c cs)
  show ?case
  proof (cases "usable_at b tr c")
    case True
    then show ?thesis using FindWindow_usable [OF True, of cs] by auto
  next
    case False
    then obtain tr' where "FindWindow b (c # cs) tr = FindWindow b cs tr'"
      using FindWindow_unusable by blast
    then show ?thesis using Cons.IH [of tr'] by auto
  qed
qed

theorem FindWindow_never_errors_witness:
  "fst (FindWindow bare_backend [''GameWindowV2'', ''GameWindow''] []) =
     Return (\<lparr>ID = [], Class = []\<rparr>, None) \<and>
   snd (exec_output bare_backend [] [''xdotool'', ''search'', ''--class'', ''GameWindow'']) \<noteq> None"
proof -
  have "\<forall>t. \<forall>c\<in>set [''GameWindowV2'', ''GameWindow'']. \<not> usable_at bare_backend t c"
    by (simp add: usable_at_def window_exists_def bare_backend_def)
  then show ?thesis
    using FindWindow_never_errors [of bare_backend "[''GameWindowV2'', ''GameWindow'']" "[]"]
    by (simp add: bare_backend_def)
qed

subsection \<open>FocusWindow\<close>

text \<open>
  Claim C2. For a window whose \<open>ID\<close> is empty, \<open>FocusWindow\<close> returns the error
  ``cannot focus window: no window ID provided'' and the run has no new event: no command
  is executed. For a window whose \<open>ID\<close> is not empty, the next event of the run is the
  execution of \<open>xdotool windowactivate\<close> on that \<open>ID\<close>.
\<close>

theorem FocusWindow_empty_id:
  "(ID w = [] \<longrightarrow>
      FocusWindow b w tr = (Some (Errorf ''cannot focus window: no window ID provided''), tr)) \<and>
   (ID w \<noteq> [] \<longrightarrow>
      (\<exists>r rest. FocusWindow b w tr =
         (r, tr @ ExecRun [''xdotool'', ''windowactivate'', ID w] # rest)))"
  by (auto simp: FocusWindow_def Let_def split: option.splits)

theorem FocusWindow_empty_id_witness:
  "FocusWindow fallback_backend \<lparr>ID = [], Class = ''GameWindow''\<rparr> [LookPath ''xdotool''] =
     (Some (Errorf ''cannot focus window: no window ID provided''), [LookPath ''xdotool'']) \<and>
   snd (FocusWindow bare_backend \<lparr>ID = ''222'', Class = ''GameWindow''\<rparr> []) =
     [ExecRun [''xdotool'', ''windowactivate'', ''222'']]"
proof -
  have "snd (FocusWindow bare_backend \<lparr>ID = ''222'', Class = ''GameWindow''\<rparr> []) =
     [ExecRun [''xdotool'', ''windowactivate'', ''222'']]"
    by (simp add: FocusWindow_def bare_backend_def)
  then show ?thesis
    using FocusWindow_empty_id [of "\<lparr>ID = [], Class = ''GameWindow''\<rparr>" fallback_backend "[LookPath ''xdotool'']"]
    by simp
qed

text \<open>
  Claim C7. \<open>FocusWindow\<close> succeeds exactly when the window's \<open>ID\<close> is not empty and the
  activation command succeeds; on every success the new events of the run are the
  activation command followed by a sleep of 100 milliseconds, and nothing else: the delay
  lies between the backend call and the return.
\<close>

theorem FocusWindow_settle_delay:
  "(fst (FocusWindow b w tr) = None) =
     (ID w \<noteq> [] \<and> exec_run b tr [''xdotool'', ''windowactivate'', ID w] = None) \<and>
   (fst (FocusWindow b w tr) = None \<longrightarrow>
      snd (FocusWindow b w tr) =
        tr @ [ExecRun [''xdotool'', ''windowactivate'', ID w], Sleep (100 * Millisecond)] \<and>
      100 * Millisecond = 100000000)"
  by (auto simp: FocusWindow_def Let_def Millisecond_def split: option.splits)

theorem FocusWindow_settle_delay_witness:
  "FocusWindow fallback_backend \<lparr>ID = ''222'', Class = ''GameWindow''\<rparr> [] =
     (None, [ExecRun [''xdotool'', ''windowactivate'', ''222''], Sleep 100000000])"
proof -
  have ok: "fst (FocusWindow fallback_backend \<lparr>ID = ''222'', Class = ''GameWindow''\<rparr> []) = None"
    by (simp add: FocusWindow_def fallback_backend_def)
  then show ?thesis
    using FocusWindow_settle_delay [of fallback_backend "\<lparr>ID = ''222'', Class = ''GameWindow''\<rparr>" "[]"]
    by (simp add: prod_eq_iff)
qed

subsection \<open>NewX11\<close>

text \<open>
  Claim C4. The constructor looks \<open>xdotool\<close> up on the path and executes nothing else. If
  the helper is absent, it returns an error that wraps the lookup's and no backend; if the
  helper is present, it returns the backend and no error.
\<close>

theorem NewX11_requires_xdotool:
  "(snd (look_path b tr ''xdotool'') = Some e \<longrightarrow>
      NewX11 b tr =
        ((None, Some (Wrap ''xdotool is required for X11 support but was not found: '' e)),
         tr @ [LookPath ''xdotool''])) \<and>
   (snd (look_path b tr ''xdotool'') = None \<longrightarrow>
      NewX11 b tr = ((Some X11, None), tr @ [LookPath ''xdotool'']))"
  by (auto simp: NewX11_def Let_def split: prod.splits option.splits)

theorem NewX11_requires_xdotool_witness:
  "NewX11 bare_backend [] =
     ((None, Some (Wrap ''xdotool is required for X11 support but was not found: ''
                      (Opaque ''executable file not found in PATH''))),
      [LookPath ''xdotool'']) \<and>
   NewX11 fallback_backend [] = ((Some X11, None), [LookPath ''xdotool''])"
  using NewX11_requires_xdotool [of bare_backend "[]" "Opaque ''executable file not found in PATH''"]
    NewX11_requires_xdotool [of fallback_backend "[]"]
  by (simp add: bare_backend_def fallback_backend_def)

section \<open>Properties of the application\<close>

lemma checkDependencies_missing:
  assumes "snd (look_path h (tr @ [LogInfo ''Checking system dependencies'' []]) ''rofi'') = Some e"
  shows "checkDependencies h tr =
     (Some (Errorf ''rofi is not installed. Please install it using your package manager''),
      tr @ [LogInfo ''Checking system dependencies'' [], LookPath ''rofi'',
            LogInfo ''Dependency check failed''
              [(''missing_dependency'', FStr ''rofi''), (''error'', FErr e)]])"
  using assms by (auto simp: checkDependencies_def Let_def split: prod.splits)

text \<open>
  Claim C3. If \<open>rofi\<close> is absent, \<open>NewPOEHelper\<close> returns no helper and the error
  ``rofi is not installed. Please install it using your package manager''; the last event
  of the run is the notifier showing that message as an error, and before it nothing of
  the background work happens: no trade manager and no log watcher is created, no
  goroutine is started.
\<close>

theorem NewPOEHelper_dependency_missing:
  assumes "\<forall>t. snd (look_path h t ''rofi'') \<noteq> None"
  shows "\<exists>new. NewPOEHelper h tr =
           ((None, Some (Errorf ''rofi is not installed. Please install it using your package manager'')),
            tr @ new @
              [NotifierShow ''rofi is not installed. Please install it using your package manager''
                 SevError]) \<and>
         filter background_work new = [] \<and> NewTradeManager \<notin> set new"
proof -
  define tr1 where "tr1 = tr @ [LogInfo ''Creating new POE Helper instance'' [],
                      LogDebug ''Initializing POEHelper''
                        [(''log_path'', FStr (PoeLogPath (config h))),
                         (''notify_command'', FStr (NotifyCommand (config h))),
                         (''trigger_count'', FInt (int (length (CompiledTriggers (config h)))))]]"
  from assms obtain e where
    e: "snd (look_path h (tr1 @ [LogInfo ''Checking system dependencies'' []]) ''rofi'') = Some e"
    by (metis option.exhaust)
  have cd: "checkDependencies h tr1 =
     (Some (Errorf ''rofi is not installed. Please install it using your package manager''),
      tr1 @ [LogInfo ''Checking system dependencies'' [], LookPath ''rofi'',
            LogInfo ''Dependency check failed''
              [(''missing_dependency'', FStr ''rofi''), (''error'', FErr e)]])"
    by (rule checkDependencies_missing [OF e])
  define new where "new = [LogInfo ''Creating new POE Helper instance'' [],
                      LogDebug ''Initializing POEHelper''
                        [(''log_path'', FStr (PoeLogPath (config h))),
                         (''notify_command'', FStr (NotifyCommand (config h))),
                         (''trigger_count'', FInt (int (length (CompiledTriggers (config h)))))],
                      LogInfo ''Checking system dependencies'' [], LookPath ''rofi'',
                      LogInfo ''Dependency check failed''
                        [(''missing_dependency'', FStr ''rofi''), (''error'', FErr e)],
                      LogError ''Dependency check failed''
                        (Errorf ''rofi is not installed. Please install it using your package manager'')
                        [(''details'', FStr ''Required dependencies not found'')]]"
  have "NewPOEHelper h tr =
           ((None, Some (Errorf ''rofi is not installed. Please install it using your package manager'')),
            tr @ new @
              [NotifierShow ''rofi is not installed. Please install it using your package manager''
                 SevError])"
    using cd unfolding NewPOEHelper_def tr1_def [symmetric] by (simp add: tr1_def new_def)
  moreover have "filter background_work new = []" "NewTradeManager \<notin> set new"
    by (simp_all add: new_def)
  ultimately show ?thesis by blast
qed

theorem NewPOEHelper_dependency_missing_witness:
  "NewPOEHelper rofi_missing_host [] =
     ((None, Some (Errorf ''rofi is not installed. Please install it using your package manager'')),
      [LogInfo ''Creating new POE Helper instance'' [],
       LogDebug ''Initializing POEHelper''
         [(''log_path'', FStr ''/games/poe2/logs/Client.txt''),
          (''notify_command'', FStr ''notify-send''),
          (''trigger_count'', FInt 1)],
       LogInfo ''Checking system dependencies'' [], LookPath ''rofi'',
       LogInfo ''Dependency check failed''
         [(''missing_dependency'', FStr ''rofi''),
          (''error'', FErr (Opaque ''executable file not found in PATH''))],
       LogError ''Dependency check failed''
         (Errorf ''rofi is not installed. Please install it using your package manager'')
         [(''details'', FStr ''Required dependencies not found'')],
       NotifierShow ''rofi is not installed. Please install it using your package manager'' SevError])"
proof -
  have "\<forall>t. snd (look_path rofi_missing_host t ''rofi'') \<noteq> None"
    by (simp add: rofi_missing_host_def)
  from NewPOEHelper_dependency_missing [OF this, of "[]"]
  obtain new where "fst (NewPOEHelper rofi_missing_host []) =
     (None, Some (Errorf ''rofi is not installed. Please install it using your package manager''))"
    by auto
  moreover have "snd (NewPOEHelper rofi_missing_host []) =
      [LogInfo ''Creating new POE Helper instance'' [],
       LogDebug ''Initializing POEHelper''
         [(''log_path'', FStr ''/games/poe2/logs/Client.txt''),
          (''notify_command'', FStr ''notify-send''),
          (''trigger_count'', FInt 1)],
       LogInfo ''Checking system dependencies'' [], LookPath ''rofi'',
       LogInfo ''Dependency check failed''
         [(''missing_dependency'', FStr ''rofi''),
          (''error'', FErr (Opaque ''executable file not found in PATH''))],
       LogError ''Dependency check failed''
         (Errorf ''rofi is not installed. Please install it using your package manager'')
         [(''details'', FStr ''Required dependencies not found'')],
       NotifierShow ''rofi is not installed. Please install it using your package manager'' SevError]"
    by (simp add: NewPOEHelper_def checkDependencies_def rofi_missing_host_def example_config_def)
  ultimately show ?thesis by (simp add: prod_eq_iff)
qed

text \<open>
  Claim C9. \<open>Stop\<close> returns \<open>nil\<close> for every helper and every run; when the helper has
  no log watcher, the stop of the watcher is skipped and only the two log lines are
  written.
\<close>

theorem Stop_returns_nil:
  "fst (Stop p tr) = None \<and>
   (poeLogWatcher p = None \<longrightarrow>
      snd (Stop p tr) =
        tr @ [LogInfo ''Initiating POE Helper shutdown'' [],
              LogInfo ''POE Helper shutdown complete''
                [(''status'', FStr ''stopped''),
                 (''processed_entries'', FInt (int (length (entries p))))]])"
  by (simp add: Stop_def Let_def)

theorem Stop_returns_nil_witness:
  "Stop idle_helper [] =
     (None, [LogInfo ''Initiating POE Helper shutdown'' [],
             LogInfo ''POE Helper shutdown complete''
               [(''status'', FStr ''stopped''), (''processed_entries'', FInt 0)]]) \<and>
   fst (Stop example_helper []) = None"
  using Stop_returns_nil [of idle_helper "[]"] Stop_returns_nil [of example_helper "[]"]
  by (simp add: idle_helper_def prod_eq_iff)

text \<open>
  Claim C10. \<open>handleTradeEntry\<close> has no result to report a failure with. For every
  entry, when \<open>AddTrade\<close> returns an error, the callback's events are the call and one
  error line in the log, and it returns; when \<open>AddTrade\<close> returns \<open>nil\<close>, the call is its
  only event.
\<close>

theorem handleTradeEntry_swallows_error:
  "(add_trade h tr (tradeManager p) entry = Some e \<longrightarrow>
      handleTradeEntry h p entry tr =
        tr @ [AddTradeCall (tradeManager p) entry,
              LogError ''Failed to process trade in manager'' e
                [(''player'', FStr (PlayerName entry)), (''item'', FStr (ItemName entry))]]) \<and>
   (add_trade h tr (tradeManager p) entry = None \<longrightarrow>
      handleTradeEntry h p entry tr = tr @ [AddTradeCall (tradeManager p) entry])"
  by (simp add: handleTradeEntry_def Let_def)

theorem handleTradeEntry_swallows_error_witness:
  "handleTradeEntry running_host example_helper example_entry [] =
     [AddTradeCall (Some (TradeManager 0)) example_entry,
      LogError ''Failed to process trade in manager'' (Opaque ''storage unavailable'')
        [(''player'', FStr ''Alice''), (''item'', FStr ''Chaos Orb'')]] \<and>
   handleTradeEntry rofi_missing_host example_helper example_entry [] =
     [AddTradeCall (Some (TradeManager 0)) example_entry]"
  using handleTradeEntry_swallows_error
          [of running_host "[]" example_helper example_entry "Opaque ''storage unavailable''"]
        handleTradeEntry_swallows_error
          [of rofi_missing_host "[]" example_helper example_entry]
  by (simp add: running_host_def rofi_missing_host_def example_helper_def example_entry_def)

lemma Run_cases:
  "\<exists>pre. filter shutdown_event pre = [] \<and>
     Run h p tr =
       (case await_signal h (tr @ pre) of
          None \<Rightarrow> (Blocked, tr @ pre)
        | Some sig \<Rightarrow>
            (Return (fst (Stop p (tr @ pre @
                [SignalReceived sig,
                 LogInfo ''Shutdown signal received'' [(''signal'', FStr (signal_String sig))]]))),
             snd (Stop p (tr @ pre @
                [SignalReceived sig,
                 LogInfo ''Shutdown signal received'' [(''signal'', FStr (signal_String sig))]]))))"
proof -
  define tr1 where "tr1 = tr @ [LogInfo ''Starting POE Helper service'' [],
                      LogDebug ''Initializing service components'' []]"
  define mid where "mid = (case notifier_show h tr1 ''POE Helper started'' SevInfo of
                   Some e \<Rightarrow> [LogError ''Startup notification failed'' e
                                      [(''notification_type'', FStr ''startup'')]]
                 | None \<Rightarrow> [])"
  define pre where "pre = [LogInfo ''Starting POE Helper service'' [],
                      LogDebug ''Initializing service components'' [],
                      NotifierShow ''POE Helper started'' SevInfo] @ mid @
                     [GoWatchRoutine,
                       LogInfo ''Service started successfully''
                         [(''status'', FStr ''running''), (''waiting_for'', FStr ''shutdown_signal'')],
                      LogDebug ''Setting up shutdown signal handler''
                        [(''signals'', FStrs [''SIGINT'', ''SIGTERM''])],
                      SignalNotify [SIGINT, SIGTERM]]"
  have f: "filter shutdown_event pre = []"
    by (simp add: pre_def mid_def split: option.splits)
  have "Run h p tr =
       (case await_signal h (tr @ pre) of
          None \<Rightarrow> (Blocked, tr @ pre)
        | Some sig \<Rightarrow>
            (Return (fst (Stop p (tr @ pre @
                [SignalReceived sig,
                 LogInfo ''Shutdown signal received'' [(''signal'', FStr (signal_String sig))]]))),
             snd (Stop p (tr @ pre @
                [SignalReceived sig,
                 LogInfo ''Shutdown signal received'' [(''signal'', FStr (signal_String sig))]]))))"
    unfolding Run_def waitForShutdown_def tr1_def [symmetric]
    by (simp add: Let_def pre_def mid_def tr1_def split: option.splits prod.splits)
  with f show ?thesis by blast
qed

text \<open>
  Claim C6. Let the helper have a log watcher. If a signal arrives, \<open>Run\<close> returns
  \<open>nil\<close>, and the run ends with the receipt of the signal, then the stop of the log
  watcher, then the last log line; no signal is received and no watcher is stopped before.
  Whenever \<open>Run\<close> returns, the run has this form. If no signal arrives, \<open>Run\<close> does not
  return and the watcher is not stopped.
\<close>

theorem Run_stops_watcher_after_signal:
  assumes "poeLogWatcher p = Some w"
  shows "((\<forall>t. await_signal h t = Some sig) \<longrightarrow>
            (\<exists>pre. filter shutdown_event pre = [] \<and>
               Run h p tr =
                 (Return None,
                  tr @ pre @
                    [SignalReceived sig,
                     LogInfo ''Shutdown signal received'' [(''signal'', FStr (signal_String sig))],
                     LogInfo ''Initiating POE Helper shutdown'' [],
                     LogDebug ''Stopping log watcher'' [],
                     WatcherStop w,
                     LogInfo ''POE Helper shutdown complete''
                       [(''status'', FStr ''stopped''),
                        (''processed_entries'', FInt (int (length (entries p))))]]))) \<and>
         (\<forall>r tr'. Run h p tr = (Return r, tr') \<longrightarrow>
            r = None \<and>
            (\<exists>pre s. filter shutdown_event pre = [] \<and>
               tr' = tr @ pre @
                    [SignalReceived s,
                     LogInfo ''Shutdown signal received'' [(''signal'', FStr (signal_String s))],
                     LogInfo ''Initiating POE Helper shutdown'' [],
                     LogDebug ''Stopping log watcher'' [],
                     WatcherStop w,
                     LogInfo ''POE Helper shutdown complete''
                       [(''status'', FStr ''stopped''),
                        (''processed_entries'', FInt (int (length (entries p))))]])) \<and>
         ((\<forall>t. await_signal h t = None) \<longrightarrow>
            (\<exists>pre. filter shutdown_event pre = [] \<and> Run h p tr = (Blocked, tr @ pre)))"
proof -
  obtain pre where f: "filter shutdown_event pre = []"
    and r: "Run h p tr =
       (case await_signal h (tr @ pre) of
          None \<Rightarrow> (Blocked, tr @ pre)
        | Some sig \<Rightarrow>
            (Return (fst (Stop p (tr @ pre @
                [SignalReceived sig,
                 LogInfo ''Shutdown signal received'' [(''signal'', FStr (signal_String sig))]]))),
             snd (Stop p (tr @ pre @
                [SignalReceived sig,
                 LogInfo ''Shutdown signal received'' [(''signal'', FStr (signal_String sig))]]))))"
    using Run_cases by blast
  have st: "\<And>t. Stop p t = (None, t @ [LogInfo ''Initiating POE Helper shutdown'' [],
                     LogDebug ''Stopping log watcher'' [],
                     WatcherStop w,
                     LogInfo ''POE Helper shutdown complete''
                       [(''status'', FStr ''stopped''),
                        (''processed_entries'', FInt (int (length (entries p))))]])"
    using assms by (simp add: Stop_def Let_def)
  have a: "(\<forall>t. await_signal h t = Some sig) \<longrightarrow>
            (\<exists>pre. filter shutdown_event pre = [] \<and>
               Run h p tr =
                 (Return None,
                  tr @ pre @
                    [SignalReceived sig,
                     LogInfo ''Shutdown signal received'' [(''signal'', FStr (signal_String sig))],
                     LogInfo ''Initiating POE Helper shutdown'' [],
                     LogDebug ''Stopping log watcher'' [],
                     WatcherStop w,
                     LogInfo ''POE Helper shutdown complete''
                       [(''status'', FStr ''stopped''),
                        (''processed_entries'', FInt (int (length (entries p))))]]))"
    using f r st by auto
  have b: "\<forall>r tr'. Run h p tr = (Return r, tr') \<longrightarrow>
            r = None \<and>
            (\<exists>pre s. filter shutdown_event pre = [] \<and>
               tr' = tr @ pre @
                    [SignalReceived s,
                     LogInfo ''Shutdown signal received'' [(''signal'', FStr (signal_String s))],
                     LogInfo ''Initiating POE Helper shutdown'' [],
                     LogDebug ''Stopping log watcher'' [],
                     WatcherStop w,
                     LogInfo ''POE Helper shutdown complete''
                       [(''status'', FStr ''stopped''),
                        (''processed_entries'', FInt (int (length (entries p))))]])"
    using f r st by (cases "await_signal h (tr @ pre)") auto
  have c: "(\<forall>t. await_signal h t = None) \<longrightarrow>
            (\<exists>pre. filter shutdown_event pre = [] \<and> Run h p tr = (Blocked, tr @ pre))"
    using f r by auto
  from a b c show ?thesis by blast
qed

theorem Run_stops_watcher_after_signal_witness:
  "Run running_host example_helper [] =
     (Return None,
      [LogInfo ''Starting POE Helper service'' [],
       LogDebug ''Initializing service components'' [],
       NotifierShow ''POE Helper started'' SevInfo,
       GoWatchRoutine,
       LogInfo ''Service started successfully''
         [(''status'', FStr ''running''), (''waiting_for'', FStr ''shutdown_signal'')],
       LogDebug ''Setting up shutdown signal handler''
         [(''signals'', FStrs [''SIGINT'', ''SIGTERM''])],
       SignalNotify [SIGINT, SIGTERM],
       SignalReceived SIGTERM,
       LogInfo ''Shutdown signal received'' [(''signal'', FStr ''terminated'')],
       LogInfo ''Initiating POE Helper shutdown'' [],
       LogDebug ''Stopping log watcher'' [],
       WatcherStop (LogWatcher 0),
       LogInfo ''POE Helper shutdown complete''
         [(''status'', FStr ''stopped''), (''processed_entries'', FInt 0)]])"
proof -
  have w: "poeLogWatcher example_helper = Some (LogWatcher 0)"
    by (simp add: example_helper_def)
  have s: "\<forall>t. await_signal running_host t = Some SIGTERM"
    by (simp add: running_host_def)
  from Run_stops_watcher_after_signal [OF w, of running_host SIGTERM "[]"] s
  have "fst (Run running_host example_helper []) = Return None"
    by auto
  moreover have "snd (Run running_host example_helper []) =
      [LogInfo ''Starting POE Helper service'' [],
       LogDebug ''Initializing service components'' [],
       NotifierShow ''POE Helper started'' SevInfo,
       GoWatchRoutine,
       LogInfo ''Service started successfully''
         [(''status'', FStr ''running''), (''waiting_for'', FStr ''shutdown_signal'')],
       LogDebug ''Setting up shutdown signal handler''
         [(''signals'', FStrs [''SIGINT'', ''SIGTERM''])],
       SignalNotify [SIGINT, SIGTERM],
       SignalReceived SIGTERM,
       LogInfo ''Shutdown signal received'' [(''signal'', FStr ''terminated'')],
       LogInfo ''Initiating POE Helper shutdown'' [],
       LogDebug ''Stopping log watcher'' [],
       WatcherStop (LogWatcher 0),
       LogInfo ''POE Helper shutdown complete''
         [(''status'', FStr ''stopped''), (''processed_entries'', FInt 0)]]"
    by (simp add: Run_def waitForShutdown_def Stop_def running_host_def example_helper_def)
  ultimately show ?thesis by (simp add: prod_eq_iff)
qed

section \<open>Properties of the trade registry\<close>

lemma dedup_key_New: "dedup_key width (e\<lparr>State := New\<rparr>) = dedup_key width e"
  by (simp add: dedup_key_def)

text \<open>
  Claim C5. For every registry and every bucket width, \<open>AddTrade\<close> of data whose dedup
  key is that of a stored entry in a non-terminal state leaves the registry as it is and
  reports duplicate-ignored; and calling \<open>AddTrade\<close> a second time with the same data
  changes nothing and reports duplicate-ignored, whatever the first call did.
\<close>

theorem AddTrade_idempotent:
  "(is_duplicate width reg e \<longrightarrow> AddTrade width reg e = (reg, DuplicateIgnored)) \<and>
   AddTrade width (fst (AddTrade width reg e)) e = (fst (AddTrade width reg e), DuplicateIgnored)"
proof -
  have "is_duplicate width (fst (AddTrade width reg e)) e"
    by (simp add: AddTrade_def is_duplicate_def list_ex_iff dedup_key_New terminal_def)
  then show ?thesis by (simp add: AddTrade_def)
qed

theorem AddTrade_idempotent_witness:
  "is_duplicate 60 [example_entry] repeated_entry \<and>
   AddTrade 60 [example_entry] repeated_entry = ([example_entry], DuplicateIgnored) \<and>
   AddTrade 60 [] example_entry = ([example_entry], Success) \<and>
   AddTrade 60 (fst (AddTrade 60 [] example_entry)) example_entry =
     ([example_entry], DuplicateIgnored)"
proof -
  have d: "is_duplicate 60 [example_entry] repeated_entry"
    by (simp add: is_duplicate_def dedup_key_def terminal_def example_entry_def repeated_entry_def)
  have a: "AddTrade 60 [] example_entry = ([example_entry], Success)"
    by (simp add: AddTrade_def is_duplicate_def example_entry_def)
  show ?thesis
    using d a AddTrade_idempotent [of 60 "[example_entry]" repeated_entry]
      AddTrade_idempotent [of 60 "[]" example_entry]
    by simp
qed

end
